theory Spec2Isabelle
  imports Main
begin

section \<open>The JsonCpp values the program handles\<close>

text \<open>
  \<^verbatim>\<open>Json::Value\<close> as the program sees it. The numeric kinds (\<^verbatim>\<open>intValue\<close>,
  \<^verbatim>\<open>uintValue\<close>, \<^verbatim>\<open>realValue\<close>) are one constructor over a type parameter: the program
  never computes with a number of the feed, it only asks the library to render it
  (\<^verbatim>\<open>asString\<close>) or to convert it (\<^verbatim>\<open>asInt\<close>). An object is the list of its members;
  a member is looked up by its key.
\<close>

datatype 'n Value =
    nullValue
  | numberValue 'n
  | stringValue string
  | booleanValue bool
  | arrayValue "'n Value list"
  | objectValue "(string \<times> 'n Value) list"

text \<open>
  The two exceptions JsonCpp throws: \<^verbatim>\<open>Json::RuntimeError\<close> from
  \<^verbatim>\<open>operator>>\<close> on a text that is not JSON, \<^verbatim>\<open>Json::LogicError\<close> from an
  accessor used on a value of the wrong kind. The program has no \<^verbatim>\<open>try\<close>: an
  exception leaves every function it passes through and terminates the process.
\<close>

datatype exn = RuntimeError | LogicError

text \<open>
  The library functions whose bodies are outside the repository, taken as parameters:
  \<^verbatim>\<open>operator>>\<close> (\<open>None\<close> when it throws), the rendering of a number by
  \<^verbatim>\<open>asString\<close>, and the conversion of a number by \<^verbatim>\<open>asInt\<close> (\<open>None\<close> when the
  number is outside the range of \<^verbatim>\<open>int\<close>).
\<close>

record 'n jsoncpp =
  parse :: "string \<Rightarrow> 'n Value option"
  valueToString :: "'n \<Rightarrow> string"
  numberAsInt :: "'n \<Rightarrow> int option"

text \<open>\<^verbatim>\<open>Value::empty()\<close>: null, an array with no element, an object with no member.\<close>

fun empty_Value :: "'n Value \<Rightarrow> bool" where
  "empty_Value nullValue = True"
| "empty_Value (arrayValue xs) = (xs = [])"
| "empty_Value (objectValue kvs) = (kvs = [])"
| "empty_Value _ = False"

text \<open>
  \<^verbatim>\<open>Value::operator[](const std::string&)\<close> on a non-const value: a null value or
  an object gives the member, null when the key is absent; any other kind throws.
\<close>

fun subscript :: "'n Value \<Rightarrow> string \<Rightarrow> exn + 'n Value" where
  "subscript nullValue key = Inr nullValue"
| "subscript (objectValue kvs) key =
     Inr (case map_of kvs key of None \<Rightarrow> nullValue | Some v \<Rightarrow> v)"
| "subscript _ key = Inl LogicError"

text \<open>\<^verbatim>\<open>Value::asString()\<close>: null is the empty string; an array or an object throws.\<close>

fun asString :: "'n jsoncpp \<Rightarrow> 'n Value \<Rightarrow> exn + string" where
  "asString lib nullValue = Inr []"
| "asString lib (stringValue s) = Inr s"
| "asString lib (booleanValue b) = Inr (if b then ''true'' else ''false'')"
| "asString lib (numberValue n) = Inr (valueToString lib n)"
| "asString lib _ = Inl LogicError"

text \<open>\<^verbatim>\<open>Value::asInt()\<close>: null is 0; a string, an array or an object throws.\<close>

fun asInt :: "'n jsoncpp \<Rightarrow> 'n Value \<Rightarrow> exn + int" where
  "asInt lib nullValue = Inr 0"
| "asInt lib (booleanValue b) = Inr (if b then 1 else 0)"
| "asInt lib (numberValue n) =
     (case numberAsInt lib n of None \<Rightarrow> Inl LogicError | Some i \<Rightarrow> Inr i)"
| "asInt lib _ = Inl LogicError"

section \<open>Global variables and observable actions\<close>

text \<open>
  The six global variables of the program. \<open>alert_active\<close> is the alert state:
  \<open>False\<close> is Inactive (its initial value), \<open>True\<close> is Active.
\<close>

record globals =
  region :: string
  alert_on :: string
  alert_off :: string
  data_url :: string
  update_interval :: int
  alert_active :: bool

definition initial_globals :: globals where
  "initial_globals =
     \<lparr>region = [], alert_on = [], alert_off = [], data_url = [],
      update_interval = 0, alert_active = False\<rparr>"

datatype MessageType = MESSAGE_INFO | MESSAGE_WARNING

datatype ButtonsType = BUTTONS_OK

text \<open>
  A detached thread is the function it runs with its arguments. What the thread does
  afterwards (the \<^verbatim>\<open>mpg123\<close> command, the dialog on the screen) runs beside the loop
  and is not followed. Of the message and button types of Gtk only those the program
  uses are listed.
\<close>

datatype thread =
    play_alert_sound string
  | show_dialog string string MessageType ButtonsType

text \<open>
  What the main thread does that can be seen from outside, in the order it does it:
  a line on \<^verbatim>\<open>std::cerr\<close>, a thread started and detached, a call of
  \<^verbatim>\<open>std::this_thread::sleep_for\<close> with a number of seconds.
\<close>

datatype action = Cerr string | Detach thread | SleepFor int

fun is_Detach :: "action \<Rightarrow> bool" where
  "is_Detach (Detach t) = True"
| "is_Detach _ = False"

fun is_SleepFor :: "action \<Rightarrow> bool" where
  "is_SleepFor (SleepFor n) = True"
| "is_SleepFor _ = False"

fun is_sound :: "action \<Rightarrow> bool" where
  "is_sound (Detach (play_alert_sound sound_file)) = True"
| "is_sound _ = False"

fun is_dialog :: "action \<Rightarrow> bool" where
  "is_dialog (Detach (show_dialog title message message_type buttons_type)) = True"
| "is_dialog _ = False"

text \<open>The four string literals of the dialogs, as the bytes of the source file (UTF-8).\<close>

definition raise_title :: string where
  "raise_title =
   [CHR 0xD0, CHR 0x92, CHR 0xD0, CHR 0xA1, CHR 0xD0, CHR 0x86, CHR 0x20, CHR 0xD0,
    CHR 0x92, CHR 0x20, CHR 0xD0, CHR 0xA3, CHR 0xD0, CHR 0x9A, CHR 0xD0, CHR 0xA0,
    CHR 0xD0, CHR 0x98, CHR 0xD0, CHR 0xA2, CHR 0xD0, CHR 0xA2, CHR 0xD0, CHR 0xAF,
    CHR 0x21, CHR 0x21, CHR 0x21]"

definition raise_text :: string where
  "raise_text =
   [CHR 0xD0, CHR 0xA3, CHR 0xD0, CHR 0xB2, CHR 0xD0, CHR 0xB0, CHR 0xD0, CHR 0xB3,
    CHR 0xD0, CHR 0xB0, CHR 0x21, CHR 0x20, CHR 0xD0, CHR 0x9F, CHR 0xD0, CHR 0xBE,
    CHR 0xD0, CHR 0xB2, CHR 0xD1, CHR 0x96, CHR 0xD1, CHR 0x82, CHR 0xD1, CHR 0x80,
    CHR 0xD1, CHR 0x8F, CHR 0xD0, CHR 0xBD, CHR 0xD0, CHR 0xB0, CHR 0x20, CHR 0xD1,
    CHR 0x82, CHR 0xD1, CHR 0x80, CHR 0xD0, CHR 0xB8, CHR 0xD0, CHR 0xB2, CHR 0xD0,
    CHR 0xBE, CHR 0xD0, CHR 0xB3, CHR 0xD0, CHR 0xB0, CHR 0x20, CHR 0xD0, CHR 0xB2,
    CHR 0x20, CHR 0xD1, CHR 0x80, CHR 0xD0, CHR 0xB5, CHR 0xD0, CHR 0xB3, CHR 0xD1,
    CHR 0x96, CHR 0xD0, CHR 0xBE, CHR 0xD0, CHR 0xBD, CHR 0xD1, CHR 0x96, CHR 0x3A,
    CHR 0x20]"

definition clear_title :: string where
  "clear_title =
   [CHR 0xD0, CHR 0x9C, CHR 0xD0, CHR 0x9E, CHR 0xD0, CHR 0x96, CHR 0xD0, CHR 0x9D,
    CHR 0xD0, CHR 0x90, CHR 0x20, CHR 0xD0, CHR 0x9F, CHR 0xD0, CHR 0x9E, CHR 0xD0,
    CHR 0x92, CHR 0xD0, CHR 0x95, CHR 0xD0, CHR 0xA0, CHR 0xD0, CHR 0xA2, CHR 0xD0,
    CHR 0x90, CHR 0xD0, CHR 0xA2, CHR 0xD0, CHR 0x98, CHR 0xD0, CHR 0xA1, CHR 0xD0,
    CHR 0xAC, CHR 0x20, CHR 0xD0, CHR 0x9D, CHR 0xD0, CHR 0x90, CHR 0x20, CHR 0xD0,
    CHR 0xA0, CHR 0xD0, CHR 0x9E, CHR 0xD0, CHR 0x91, CHR 0xD0, CHR 0x9E, CHR 0xD0,
    CHR 0xA7, CHR 0xD0, CHR 0x86, CHR 0x20, CHR 0xD0, CHR 0x9C, CHR 0xD0, CHR 0x86,
    CHR 0xD0, CHR 0xA1, CHR 0xD0, CHR 0xA6, CHR 0xD0, CHR 0xAF, CHR 0x21]"

definition clear_text :: string where
  "clear_text =
   [CHR 0xD0, CHR 0x92, CHR 0xD1, CHR 0x96, CHR 0xD0, CHR 0xB4, CHR 0xD0, CHR 0xB1,
    CHR 0xD1, CHR 0x96, CHR 0xD0, CHR 0xB9, CHR 0x20, CHR 0xD0, CHR 0xBF, CHR 0xD0,
    CHR 0xBE, CHR 0xD0, CHR 0xB2, CHR 0xD1, CHR 0x96, CHR 0xD1, CHR 0x82, CHR 0xD1,
    CHR 0x80, CHR 0xD1, CHR 0x8F, CHR 0xD0, CHR 0xBD, CHR 0xD0, CHR 0xBE, CHR 0xD1,
    CHR 0x97, CHR 0x20, CHR 0xD1, CHR 0x82, CHR 0xD1, CHR 0x80, CHR 0xD0, CHR 0xB8,
    CHR 0xD0, CHR 0xB2, CHR 0xD0, CHR 0xBE, CHR 0xD0, CHR 0xB3, CHR 0xD0, CHR 0xB8,
    CHR 0x20, CHR 0xD0, CHR 0xB2, CHR 0x20, CHR 0xD1, CHR 0x80, CHR 0xD0, CHR 0xB5,
    CHR 0xD0, CHR 0xB3, CHR 0xD1, CHR 0x96, CHR 0xD0, CHR 0xBE, CHR 0xD0, CHR 0xBD,
    CHR 0xD1, CHR 0x96, CHR 0x3A, CHR 0x20]"

section \<open>fetch_data\<close>

text \<open>
  \<open>readBuffer\<close> is what the transfer of lines 45 to 54 left in the buffer: the body
  received, whatever the HTTP status (the result \<^verbatim>\<open>res\<close> of the transfer is never
  read), and nothing when no byte arrived. An empty buffer gives a line on
  \<^verbatim>\<open>std::cerr\<close> and the default (null) value; any other buffer goes to \<^verbatim>\<open>operator>>\<close>,
  whose exception is not caught.
\<close>

definition fetch_data :: "'n jsoncpp \<Rightarrow> string \<Rightarrow> string \<Rightarrow> action list \<times> (exn + 'n Value)" where
  "fetch_data lib data_url' readBuffer =
     (if readBuffer = []
      then ([Cerr (''Failed to fetch data from '' @ data_url' @ [CHR 0x0A])], Inr nullValue)
      else (case parse lib readBuffer of
              None \<Rightarrow> ([], Inl RuntimeError)
            | Some jsonData \<Rightarrow> ([], Inr jsonData)))"

section \<open>check_alerts\<close>

text \<open>The two threads started at a raise (lines 127 to 132) and at a clear (lines 135 to 140).\<close>

definition raise_threads :: "string \<Rightarrow> string \<Rightarrow> action list" where
  "raise_threads alert_on' region' =
     [Detach (play_alert_sound alert_on'),
      Detach (show_dialog raise_title (raise_text @ region' @ ''!'') MESSAGE_WARNING BUTTONS_OK)]"

definition clear_threads :: "string \<Rightarrow> string \<Rightarrow> action list" where
  "clear_threads alert_off' region' =
     [Detach (play_alert_sound alert_off'),
      Detach (show_dialog clear_title (clear_text @ region' @ ''!'') MESSAGE_INFO BUTTONS_OK)]"

text \<open>
  Lines 125 to 141, the decision on the status read: the new value of
  \<open>alert_active\<close> and the threads started.
\<close>

definition decide :: "string \<Rightarrow> string \<Rightarrow> string \<Rightarrow> bool \<Rightarrow> string \<Rightarrow> bool \<times> action list" where
  "decide alert_on' alert_off' region' active status =
     (if \<not> active \<and> status = ''full''
      then (True, raise_threads alert_on' region')
      else if active \<and> (status = ''null'' \<or> status = ''no_data'')
      then (False, clear_threads alert_off' region')
      else (active, []))"

text \<open>
  \<^verbatim>\<open>value[key].asString()\<close>, as in line 123 (\<^verbatim>\<open>data[region].asString()\<close>) and in
  lines 174 to 177.
\<close>

definition subscript_asString :: "'n jsoncpp \<Rightarrow> 'n Value \<Rightarrow> string \<Rightarrow> exn + string" where
  "subscript_asString lib v key =
     (case subscript v key of Inl e \<Rightarrow> Inl e | Inr m \<Rightarrow> asString lib m)"

text \<open>
  One pass through the body of the loop (lines 118 to 143), on the buffer this pass's
  transfer leaves: the globals after it, what it did, and the exception that ended it,
  if one did. The parameters shadow the globals of the same names; \<open>region\<close> and
  \<open>alert_active\<close> are read from the globals.
\<close>

definition iteration ::
  "'n jsoncpp \<Rightarrow> string \<Rightarrow> string \<Rightarrow> string \<Rightarrow> int \<Rightarrow> globals \<Rightarrow> string
     \<Rightarrow> globals \<times> action list \<times> exn option" where
  "iteration lib alert_on' alert_off' data_url' update_interval' g readBuffer =
     (case fetch_data lib data_url' readBuffer of
        (out, Inl e) \<Rightarrow> (g, out, Some e)
      | (out, Inr data) \<Rightarrow>
          if empty_Value data
          then (g, out @ [Cerr (''Failed to fetch data from '' @ data_url' @ [CHR 0x0A])], None)
          else (case subscript_asString lib data (region g) of
                  Inl e \<Rightarrow> (g, out, Some e)
                | Inr status \<Rightarrow>
                    (case decide alert_on' alert_off' (region g) (alert_active g) status of
                       (active', threads) \<Rightarrow>
                         (g\<lparr>alert_active := active'\<rparr>,
                          out @ threads @ [SleepFor update_interval'], None))))"

text \<open>
  The loop has no exit: it ends only by an exception. A run is observed over the
  buffers of its first transfers; when they are used up the loop is still running.
\<close>

datatype ending = Exit int | Uncaught exn | Polling

record run =
  final :: globals
  startup :: "action list"
  cycles :: "action list list"
  ending :: ending

fun check_alerts ::
  "'n jsoncpp \<Rightarrow> string \<Rightarrow> string \<Rightarrow> string \<Rightarrow> int \<Rightarrow> globals \<Rightarrow> string list \<Rightarrow> run" where
  "check_alerts lib alert_on' alert_off' data_url' update_interval' g [] =
     \<lparr>final = g, startup = [], cycles = [], ending = Polling\<rparr>"
| "check_alerts lib alert_on' alert_off' data_url' update_interval' g (readBuffer # rest) =
     (case iteration lib alert_on' alert_off' data_url' update_interval' g readBuffer of
        (g', out, Some e) \<Rightarrow> \<lparr>final = g', startup = [], cycles = [out], ending = Uncaught e\<rparr>
      | (g', out, None) \<Rightarrow>
          (let r = check_alerts lib alert_on' alert_off' data_url' update_interval' g' rest
           in r\<lparr>cycles := out # cycles r\<rparr>))"

section \<open>main\<close>

text \<open>
  \<open>argv\<close> is the argument vector (\<^verbatim>\<open>argc\<close> is its length), \<open>files\<close> gives the
  content of a path that \<^verbatim>\<open>std::ifstream\<close> can open, \<open>net\<close> the buffers of the
  transfers. The five assignments of lines 174 to 178 are made in order, so an
  exception in one leaves the earlier ones done. With no argument at all
  \<^verbatim>\<open>argv[0]\<close> is a null pointer, and the usage line stops where it would be written.
  The \<^verbatim>\<open>return 0\<close> of line 182 follows a loop without exit and is never reached.
\<close>

definition read_config :: "'n jsoncpp \<Rightarrow> 'n Value \<Rightarrow> globals \<Rightarrow> globals \<times> exn option" where
  "read_config lib config g0 =
     (case subscript_asString lib config ''region'' of
        Inl e \<Rightarrow> (g0, Some e)
      | Inr v1 \<Rightarrow>
     (let g1 = g0\<lparr>region := v1\<rparr> in
      case subscript_asString lib config ''alert_on'' of
        Inl e \<Rightarrow> (g1, Some e)
      | Inr v2 \<Rightarrow>
     (let g2 = g1\<lparr>alert_on := v2\<rparr> in
      case subscript_asString lib config ''alert_off'' of
        Inl e \<Rightarrow> (g2, Some e)
      | Inr v3 \<Rightarrow>
     (let g3 = g2\<lparr>alert_off := v3\<rparr> in
      case subscript_asString lib config ''data_url'' of
        Inl e \<Rightarrow> (g3, Some e)
      | Inr v4 \<Rightarrow>
     (let g4 = g3\<lparr>data_url := v4\<rparr> in
      case subscript config ''update_interval'' of
        Inl e \<Rightarrow> (g4, Some e)
      | Inr m \<Rightarrow>
     (case asInt lib m of
        Inl e \<Rightarrow> (g4, Some e)
      | Inr v5 \<Rightarrow> (g4\<lparr>update_interval := v5\<rparr>, None)))))))"

definition main ::
  "'n jsoncpp \<Rightarrow> (string \<Rightarrow> string option) \<Rightarrow> string list \<Rightarrow> globals \<Rightarrow> string list \<Rightarrow> run" where
  "main lib files argv g net =
     (if length argv < 2
      then \<lparr>final = g,
            startup = [Cerr (''Usage: '' @
                         (case argv of [] \<Rightarrow> [] | a # _ \<Rightarrow> a @ '' <config_file_path>'' @ [CHR 0x0A]))],
            cycles = [], ending = Exit 1\<rparr>
      else (case files (argv ! 1) of
              None \<Rightarrow>
                \<lparr>final = g,
                 startup = [Cerr (''Failed to open config file: '' @ argv ! 1 @ [CHR 0x0A])],
                 cycles = [], ending = Exit 1\<rparr>
            | Some text \<Rightarrow>
                (case parse lib text of
                   None \<Rightarrow> \<lparr>final = g, startup = [], cycles = [], ending = Uncaught RuntimeError\<rparr>
                 | Some config \<Rightarrow>
                     (case read_config lib config g of
                        (g', Some e) \<Rightarrow>
                          \<lparr>final = g', startup = [], cycles = [], ending = Uncaught e\<rparr>
                      | (g', None) \<Rightarrow>
                          check_alerts lib (alert_on g') (alert_off g') (data_url g')
                            (update_interval g') g' net))))"

section \<open>A feed, three configuration files and a library instance\<close>

text \<open>
  The buffer of a transfer reports a status for a region when it is not empty and
  \<^verbatim>\<open>operator>>\<close> reads it as an object whose member for the region is that string.
\<close>

definition reports :: "'n jsoncpp \<Rightarrow> string \<Rightarrow> string \<Rightarrow> string \<Rightarrow> bool" where
  "reports lib region' readBuffer status =
     (readBuffer \<noteq> [] \<and>
      (case parse lib readBuffer of
         Some (objectValue kvs) \<Rightarrow> map_of kvs region' = Some (stringValue status)
       | _ \<Rightarrow> False))"

text \<open>Decimal rendering of an integer, as \<^verbatim>\<open>valueToString\<close> gives it.\<close>

fun decimal_nat :: "nat \<Rightarrow> string" where
  "decimal_nat n =
     (if n < 10 then [char_of (48 + n)]
      else decimal_nat (n div 10) @ [char_of (48 + n mod 10)])"

definition decimal :: "int \<Rightarrow> string" where
  "decimal i = (if i < 0 then CHR ''-'' # decimal_nat (nat (- i)) else decimal_nat (nat i))"

definition feed_no_data :: string where
  \<open>feed_no_data = ''{"kyiv":"no_data"}''\<close>

definition feed_full :: string where
  \<open>feed_full = ''{"kyiv":"full"}''\<close>

definition feed_null :: string where
  \<open>feed_null = ''{"kyiv":"null"}''\<close>

definition feed_other_region :: string where
  \<open>feed_other_region = ''{"lviv":"full"}''\<close>

definition feed_not_json :: string where
  \<open>feed_not_json = ''<html>404 Not Found</html>''\<close>

definition config_zero_interval :: string where
  \<open>config_zero_interval =
     ''{"region":"kyiv","alert_on":"on.mp3","alert_off":"off.mp3","data_url":"http://feed","update_interval":0}''\<close>

definition config_empty_region :: string where
  \<open>config_empty_region =
     ''{"region":"","alert_on":"on.mp3","alert_off":"off.mp3","data_url":"http://feed","update_interval":30}''\<close>

definition config_empty_url :: string where
  \<open>config_empty_url =
     ''{"region":"kyiv","alert_on":"on.mp3","alert_off":"off.mp3","data_url":"","update_interval":30}''\<close>

definition config_of :: "string \<Rightarrow> string \<Rightarrow> int \<Rightarrow> int Value" where
  "config_of r u n =
     objectValue [(''region'', stringValue r), (''alert_on'', stringValue ''on.mp3''),
       (''alert_off'', stringValue ''off.mp3''), (''data_url'', stringValue u),
       (''update_interval'', numberValue n)]"

text \<open>
  The JSON texts of the examples with the values they denote. \<open>example_lib\<close> reads
  these texts as \<^verbatim>\<open>operator>>\<close> does and throws on \<open>feed_not_json\<close>, which is not
  JSON; it is used on no other text.
\<close>

definition example_texts :: "(string \<times> int Value) list" where
  "example_texts =
     [(feed_no_data, objectValue [(''kyiv'', stringValue ''no_data'')]),
      (feed_full, objectValue [(''kyiv'', stringValue ''full'')]),
      (feed_null, objectValue [(''kyiv'', stringValue ''null'')]),
      (feed_other_region, objectValue [(''lviv'', stringValue ''full'')]),
      (config_zero_interval, config_of ''kyiv'' ''http://feed'' 0),
      (config_empty_region, config_of [] ''http://feed'' 30),
      (config_empty_url, config_of ''kyiv'' [] 30)]"

definition example_lib :: "int jsoncpp" where
  "example_lib =
     \<lparr>parse = map_of example_texts,
      valueToString = decimal,
      numberAsInt = (\<lambda>i. if - (2 ^ 31) \<le> i \<and> i < 2 ^ 31 then Some i else None)\<rparr>"

definition example_files :: "string \<Rightarrow> string option" where
  "example_files =
     map_of [(''zero_interval.json'', config_zero_interval),
             (''empty_region.json'', config_empty_region),
             (''empty_url.json'', config_empty_url)]"

definition kyiv_globals :: globals where
  "kyiv_globals =
     \<lparr>region = ''kyiv'', alert_on = ''on.mp3'', alert_off = ''off.mp3'',
      data_url = ''http://feed'', update_interval = 30, alert_active = False\<rparr>"

lemmas example_defs = example_lib_def example_texts_def feed_no_data_def feed_full_def
  feed_null_def feed_other_region_def feed_not_json_def config_zero_interval_def
  config_empty_region_def config_empty_url_def config_of_def example_files_def
  kyiv_globals_def

section \<open>The decision step and the poll cycle\<close>

lemma fetch_data_no_threads:
  "filter is_Detach (fst (fetch_data lib url buf)) = []"
  by (simp add: fetch_data_def split: option.splits)

lemma fetch_data_no_sound:
  "filter is_sound (fst (fetch_data lib url buf)) = []"
  by (simp add: fetch_data_def split: option.splits)

lemma fetch_data_no_dialog:
  "filter is_dialog (fst (fetch_data lib url buf)) = []"
  by (simp add: fetch_data_def split: option.splits)

lemma decide_threads:
  "decide on off r a s = (a', ts) \<Longrightarrow>
     filter is_Detach ts = ts \<and> length (filter is_sound ts) \<le> 1 \<and> length (filter is_dialog ts) \<le> 1"
  by (auto simp: decide_def raise_threads_def clear_threads_def split: if_splits)

lemma iteration_reports:
  assumes "reports lib (region g) buf status"
  shows "iteration lib on off url n g buf =
           (g\<lparr>alert_active := fst (decide on off (region g) (alert_active g) status)\<rparr>,
            snd (decide on off (region g) (alert_active g) status) @ [SleepFor n], None)"
  using assms
  by (auto simp: reports_def iteration_def fetch_data_def subscript_asString_def
      split: option.splits Value.splits prod.splits)

lemma check_alerts_startup: "startup (check_alerts lib on off url n g net) = []"
  by (induction net arbitrary: g) (auto split: prod.splits option.splits simp: Let_def)

lemma check_alerts_never_exits: "ending (check_alerts lib on off url n g net) \<noteq> Exit k"
  by (induction net arbitrary: g) (auto split: prod.splits option.splits simp: Let_def)

lemma check_alerts_snoc:
  assumes "ending (check_alerts lib on off url n g0 pre) = Polling"
    and "iteration lib on off url n (final (check_alerts lib on off url n g0 pre)) buf = (g', out, e)"
  shows "check_alerts lib on off url n g0 (pre @ [buf]) =
           \<lparr>final = g', startup = [],
            cycles = cycles (check_alerts lib on off url n g0 pre) @ [out],
            ending = (case e of None \<Rightarrow> Polling | Some x \<Rightarrow> Uncaught x)\<rparr>"
  using assms
proof (induction pre arbitrary: g0)
  case Nil
  then show ?case by (auto split: option.splits)
next
  case (Cons b pre)
  obtain g1 out1 e1 where it: "iteration lib on off url n g0 b = (g1, out1, e1)"
    by (cases "iteration lib on off url n g0 b") auto
  show ?case
  proof (cases e1)
    case None
    with Cons.prems it Cons.IH [of g1] show ?thesis
      by (simp add: Let_def)
  next
    case (Some x)
    with Cons.prems it show ?thesis by simp
  qed
qed

text \<open>
  Claim C1. The decision step raises from Inactive on the status \<open>full\<close> and clears
  from Active on the status \<open>null\<close> or \<open>no_data\<close>. On a raise the alert state
  becomes Active and exactly two threads are started and detached, in this order: the
  sound \<open>alert_on\<close>, and the warning dialog with the title and the text of the raise
  for the region. On a clear the state becomes Inactive and the two threads are the
  sound \<open>alert_off\<close> and the information dialog with the title and the text of the
  clear for the region.
\<close>

theorem decide_raise_and_clear:
  "decide on off r False ''full'' =
     (True,
      [Detach (play_alert_sound on),
       Detach (show_dialog raise_title (raise_text @ r @ ''!'')
         MESSAGE_WARNING BUTTONS_OK)]) \<and>
   decide on off r True ''null'' =
     (False,
      [Detach (play_alert_sound off),
       Detach (show_dialog clear_title (clear_text @ r @ ''!'')
         MESSAGE_INFO BUTTONS_OK)]) \<and>
   decide on off r True ''no_data'' =
     (False,
      [Detach (play_alert_sound off),
       Detach (show_dialog clear_title (clear_text @ r @ ''!'')
         MESSAGE_INFO BUTTONS_OK)])"
  by (simp add: decide_def raise_threads_def clear_threads_def)

text \<open>
  Claim C2. For every alert state and every status that triggers no transition from it
  (Inactive with a status other than \<open>full\<close>, Active with a status other than
  \<open>null\<close> and \<open>no_data\<close>), the decision step returns the state unchanged and
  starts no thread. The witness has the settled pairs Inactive/\<open>null\<close> and
  Active/\<open>full\<close> and the unknown status \<open>partial\<close> in both states.
\<close>

theorem decide_otherwise_unchanged:
  assumes "\<not> active \<longrightarrow> status \<noteq> ''full''"
    and "active \<longrightarrow> status \<noteq> ''null'' \<and> status \<noteq> ''no_data''"
  shows "decide on off r active status = (active, [])"
  using assms by (auto simp: decide_def)

theorem decide_otherwise_unchanged_witness:
  "decide ''on.mp3'' ''off.mp3'' ''kyiv'' False ''null'' = (False, []) \<and>
   decide ''on.mp3'' ''off.mp3'' ''kyiv'' True ''full'' = (True, []) \<and>
   decide ''on.mp3'' ''off.mp3'' ''kyiv'' False ''partial'' = (False, []) \<and>
   decide ''on.mp3'' ''off.mp3'' ''kyiv'' True ''partial'' = (True, [])"
  using decide_otherwise_unchanged [of False "''null''" "''on.mp3''" "''off.mp3''" "''kyiv''"]
    decide_otherwise_unchanged [of True "''full''" "''on.mp3''" "''off.mp3''" "''kyiv''"]
    decide_otherwise_unchanged [of False "''partial''" "''on.mp3''" "''off.mp3''" "''kyiv''"]
    decide_otherwise_unchanged [of True "''partial''" "''on.mp3''" "''off.mp3''" "''kyiv''"]
  by simp

text \<open>
  Claim C3. Take any run of the loop that starts Inactive and is still polling after the
  transfers \<open>pre\<close>, and the pass of the loop body it makes next, on the buffer
  \<open>buf\<close>. That pass is the next cycle of the run. If it changes the alert state, then
  the transfer gave a non-empty document, the status read from it was \<open>full\<close> with
  the state going from Inactive to Active and exactly the threads of a raise started, or
  the status was \<open>null\<close> or \<open>no_data\<close> with the state going from Active to
  Inactive and exactly the threads of a clear started. In every other case (another
  status, a failed fetch, an exception) no global changes and no thread is started. In
  all cases at most one sound thread and at most one dialog thread are started.
\<close>

theorem poll_cycle_invariant:
  assumes start: "\<not> alert_active g0"
    and reach: "ending (check_alerts lib on off url n g0 pre) = Polling"
    and state: "g = final (check_alerts lib on off url n g0 pre)"
    and cycle: "iteration lib on off url n g buf = (g', out, e)"
  shows "cycles (check_alerts lib on off url n g0 (pre @ [buf])) =
           cycles (check_alerts lib on off url n g0 pre) @ [out] \<and>
         final (check_alerts lib on off url n g0 (pre @ [buf])) = g' \<and>
         (alert_active g' \<noteq> alert_active g \<longrightarrow>
            (\<exists>data status.
               snd (fetch_data lib url buf) = Inr data \<and> \<not> empty_Value data \<and>
               subscript_asString lib data (region g) = Inr status \<and>
               ((\<not> alert_active g \<and> alert_active g' \<and> status = ''full'' \<and>
                   filter is_Detach out = raise_threads on (region g)) \<or>
                (alert_active g \<and> \<not> alert_active g' \<and>
                   (status = ''null'' \<or> status = ''no_data'') \<and>
                   filter is_Detach out = clear_threads off (region g))))) \<and>
         (alert_active g' = alert_active g \<longrightarrow> g' = g \<and> filter is_Detach out = []) \<and>
         g' = g\<lparr>alert_active := alert_active g'\<rparr> \<and>
         length (filter is_sound out) \<le> 1 \<and> length (filter is_dialog out) \<le> 1"
proof -
  have run: "cycles (check_alerts lib on off url n g0 (pre @ [buf])) =
               cycles (check_alerts lib on off url n g0 pre) @ [out] \<and>
             final (check_alerts lib on off url n g0 (pre @ [buf])) = g'"
    using check_alerts_snoc [OF reach cycle [unfolded state]] by simp
  obtain log r where f: "fetch_data lib url buf = (log, r)"
    by (cases "fetch_data lib url buf") auto
  have log: "filter is_Detach log = []" "filter is_sound log = []" "filter is_dialog log = []"
    using fetch_data_no_threads [of lib url buf] fetch_data_no_sound [of lib url buf]
      fetch_data_no_dialog [of lib url buf] f by simp_all
  show ?thesis
  proof (cases r)
    case (Inl x)
    with cycle f log run show ?thesis by (auto simp: iteration_def)
  next
    case (Inr data)
    show ?thesis
    proof (cases "empty_Value data")
      case True
      with cycle f log run Inr show ?thesis by (auto simp: iteration_def)
    next
      case False
      show ?thesis
      proof (cases "subscript_asString lib data (region g)")
        case (Inl x)
        with cycle f log run Inr False show ?thesis by (auto simp: iteration_def)
      next
        case st: (Inr status)
        obtain a' ts where d: "decide on off (region g) (alert_active g) status = (a', ts)"
          by (cases "decide on off (region g) (alert_active g) status") auto
        have g': "g' = g\<lparr>alert_active := a'\<rparr>" and out: "out = log @ ts @ [SleepFor n]"
          using cycle f Inr False st d by (auto simp: iteration_def)
        have cnt: "length (filter is_sound out) \<le> 1 \<and> length (filter is_dialog out) \<le> 1"
          using decide_threads [OF d] log out by simp
        have thr: "filter is_Detach out = ts"
          using decide_threads [OF d] log out by simp
        have fs: "snd (fetch_data lib url buf) = Inr data"
          using f Inr by simp
        have chg: "alert_active g' \<noteq> alert_active g \<longrightarrow>
            ((\<not> alert_active g \<and> alert_active g' \<and> status = ''full'' \<and>
                   filter is_Detach out = raise_threads on (region g)) \<or>
                (alert_active g \<and> \<not> alert_active g' \<and>
                   (status = ''null'' \<or> status = ''no_data'') \<and>
                   filter is_Detach out = clear_threads off (region g)))"
          using d g' thr by (auto simp: decide_def split: if_splits)
        have same: "alert_active g' = alert_active g \<longrightarrow> g' = g \<and> filter is_Detach out = []"
          using d g' thr by (auto simp: decide_def split: if_splits)
        have upd: "g' = g\<lparr>alert_active := alert_active g'\<rparr>"
          using g' by simp
        have ex: "alert_active g' \<noteq> alert_active g \<longrightarrow>
            (\<exists>data status.
               snd (fetch_data lib url buf) = Inr data \<and> \<not> empty_Value data \<and>
               subscript_asString lib data (region g) = Inr status \<and>
               ((\<not> alert_active g \<and> alert_active g' \<and> status = ''full'' \<and>
                   filter is_Detach out = raise_threads on (region g)) \<or>
                (alert_active g \<and> \<not> alert_active g' \<and>
                   (status = ''null'' \<or> status = ''no_data'') \<and>
                   filter is_Detach out = clear_threads off (region g))))"
          using chg fs False st by blast
        from run cnt ex same upd show ?thesis by blast
      qed
    qed
  qed
qed

theorem poll_cycle_invariant_witness:
  "\<not> alert_active kyiv_globals \<and>
   ending (check_alerts example_lib ''on.mp3'' ''off.mp3'' ''http://feed'' 30 kyiv_globals
     [feed_no_data]) = Polling \<and>
   kyiv_globals = final (check_alerts example_lib ''on.mp3'' ''off.mp3'' ''http://feed'' 30
     kyiv_globals [feed_no_data]) \<and>
   iteration example_lib ''on.mp3'' ''off.mp3'' ''http://feed'' 30 kyiv_globals feed_full =
     (kyiv_globals\<lparr>alert_active := True\<rparr>,
      raise_threads ''on.mp3'' ''kyiv'' @ [SleepFor 30], None) \<and>
   cycles (check_alerts example_lib ''on.mp3'' ''off.mp3'' ''http://feed'' 30 kyiv_globals
     ([feed_no_data] @ [feed_full])) =
     [[SleepFor 30], raise_threads ''on.mp3'' ''kyiv'' @ [SleepFor 30]] \<and>
   length (filter is_sound (raise_threads ''on.mp3'' ''kyiv'' @ [SleepFor 30])) \<le> 1 \<and>
   length (filter is_dialog (raise_threads ''on.mp3'' ''kyiv'' @ [SleepFor 30])) \<le> 1"
proof -
  have h1: "\<not> alert_active kyiv_globals"
    by (simp add: kyiv_globals_def)
  have r1: "check_alerts example_lib ''on.mp3'' ''off.mp3'' ''http://feed'' 30 kyiv_globals
      [feed_no_data] =
      \<lparr>final = kyiv_globals, startup = [], cycles = [[SleepFor 30]], ending = Polling\<rparr>"
    by (simp add: example_defs iteration_def fetch_data_def subscript_asString_def decide_def)
  have h2: "ending (check_alerts example_lib ''on.mp3'' ''off.mp3'' ''http://feed'' 30
      kyiv_globals [feed_no_data]) = Polling"
    unfolding r1 by simp
  have h3: "kyiv_globals = final (check_alerts example_lib ''on.mp3'' ''off.mp3''
      ''http://feed'' 30 kyiv_globals [feed_no_data])"
    unfolding r1 by simp
  have h4: "iteration example_lib ''on.mp3'' ''off.mp3'' ''http://feed'' 30 kyiv_globals
      feed_full =
      (kyiv_globals\<lparr>alert_active := True\<rparr>,
       raise_threads ''on.mp3'' ''kyiv'' @ [SleepFor 30], None)"
    by (simp add: example_defs iteration_def fetch_data_def subscript_asString_def decide_def)
  from poll_cycle_invariant [OF h1 h2 h3 h4] h1 h2 h3 h4 r1 show ?thesis
    by (simp del: check_alerts.simps)
qed

text \<open>
  Claim C4. A pass of the loop body whose \<open>fetch_data\<close> returns an empty value (the
  null value it returns on failure is one) leaves every global, the alert state among
  them, unchanged, starts no thread (no sound, no dialog), and writes the failure line.
\<close>

theorem fetch_failure_isolation:
  assumes "snd (fetch_data lib url buf) = Inr data" and "empty_Value data"
  shows "iteration lib on off url n g buf =
           (g, fst (fetch_data lib url buf) @
               [Cerr (''Failed to fetch data from '' @ url @ [CHR 0x0A])], None) \<and>
         filter is_Detach (fst (snd (iteration lib on off url n g buf))) = []"
proof -
  obtain log where f: "fetch_data lib url buf = (log, Inr data)"
    using assms(1) by (cases "fetch_data lib url buf") auto
  have "filter is_Detach log = []"
    using fetch_data_no_threads [of lib url buf] f by simp
  with f assms(2) show ?thesis
    by (simp add: iteration_def)
qed

theorem fetch_failure_isolation_witness:
  "snd (fetch_data example_lib ''http://feed'' []) = Inr nullValue \<and>
   empty_Value (nullValue :: int Value) \<and>
   iteration example_lib ''on.mp3'' ''off.mp3'' ''http://feed'' 30
     (kyiv_globals\<lparr>alert_active := True\<rparr>) [] =
     (kyiv_globals\<lparr>alert_active := True\<rparr>,
      [Cerr (''Failed to fetch data from http://feed'' @ [CHR 0x0A]),
       Cerr (''Failed to fetch data from http://feed'' @ [CHR 0x0A])], None)"
proof -
  have h1: "snd (fetch_data example_lib ''http://feed'' []) = Inr nullValue"
    by (simp add: fetch_data_def)
  have h2: "empty_Value (nullValue :: int Value)"
    by simp
  from fetch_failure_isolation [OF h1 h2, of "''on.mp3''" "''off.mp3''" 30
      "kyiv_globals\<lparr>alert_active := True\<rparr>"] h1 h2
  show ?thesis by (simp add: fetch_data_def)
qed

text \<open>
  Claim C5. From the state Inactive, four transfers whose documents report for the
  configured region the statuses \<open>no_data\<close>, \<open>full\<close>, \<open>full\<close>, \<open>null\<close>
  give four cycles. The first starts no thread; the second starts the sound
  \<open>alert_on\<close> and the warning dialog of the raise; the third starts no thread; the
  fourth starts the sound \<open>alert_off\<close> and the information dialog of the clear. Each
  cycle ends with the sleep of the interval, the alert state at the end is Inactive and
  the loop is still polling. The witness is the feed of the region \<open>kyiv\<close>.
\<close>

theorem end_to_end_scenario:
  assumes "\<not> alert_active g"
    and "reports lib (region g) b1 ''no_data''"
    and "reports lib (region g) b2 ''full''"
    and "reports lib (region g) b3 ''full''"
    and "reports lib (region g) b4 ''null''"
  shows "check_alerts lib on off url n g [b1, b2, b3, b4] =
           \<lparr>final = g, startup = [],
            cycles =
              [[SleepFor n],
               [Detach (play_alert_sound on),
                Detach (show_dialog raise_title (raise_text @ region g @ ''!'')
                  MESSAGE_WARNING BUTTONS_OK),
                SleepFor n],
               [SleepFor n],
               [Detach (play_alert_sound off),
                Detach (show_dialog clear_title (clear_text @ region g @ ''!'')
                  MESSAGE_INFO BUTTONS_OK),
                SleepFor n]],
            ending = Polling\<rparr>"
proof -
  let ?a = "g\<lparr>alert_active := True\<rparr>"
  have i1: "iteration lib on off url n g b1 = (g, [SleepFor n], None)"
    using iteration_reports [OF assms(2), of on off url n] assms(1) by (simp add: decide_def)
  have i2: "iteration lib on off url n g b2 =
      (?a, [Detach (play_alert_sound on),
            Detach (show_dialog raise_title (raise_text @ region g @ ''!'')
              MESSAGE_WARNING BUTTONS_OK),
            SleepFor n], None)"
    using iteration_reports [OF assms(3), of on off url n] assms(1)
    by (simp add: decide_def raise_threads_def)
  have i3: "iteration lib on off url n ?a b3 = (?a, [SleepFor n], None)"
    using iteration_reports [of lib ?a b3 "''full''" on off url n] assms(4) by (simp add: decide_def)
  have i4: "iteration lib on off url n ?a b4 =
      (g, [Detach (play_alert_sound off),
           Detach (show_dialog clear_title (clear_text @ region g @ ''!'')
             MESSAGE_INFO BUTTONS_OK),
           SleepFor n], None)"
    using iteration_reports [of lib ?a b4 "''null''" on off url n] assms(5) assms(1)
    by (simp add: decide_def clear_threads_def)
  show ?thesis
    by (simp add: i1 i2 i3 i4)
qed

theorem end_to_end_scenario_witness:
  "\<not> alert_active kyiv_globals \<and>
   reports example_lib (region kyiv_globals) feed_no_data ''no_data'' \<and>
   reports example_lib (region kyiv_globals) feed_full ''full'' \<and>
   reports example_lib (region kyiv_globals) feed_null ''null'' \<and>
   check_alerts example_lib ''on.mp3'' ''off.mp3'' ''http://feed'' 30 kyiv_globals
     [feed_no_data, feed_full, feed_full, feed_null] =
     \<lparr>final = kyiv_globals, startup = [],
      cycles =
        [[SleepFor 30],
         [Detach (play_alert_sound ''on.mp3''),
          Detach (show_dialog raise_title (raise_text @ ''kyiv!'')
            MESSAGE_WARNING BUTTONS_OK),
          SleepFor 30],
         [SleepFor 30],
         [Detach (play_alert_sound ''off.mp3''),
          Detach (show_dialog clear_title (clear_text @ ''kyiv!'')
            MESSAGE_INFO BUTTONS_OK),
          SleepFor 30]],
      ending = Polling\<rparr>"
proof -
  have h0: "\<not> alert_active kyiv_globals"
    by (simp add: kyiv_globals_def)
  have h1: "reports example_lib (region kyiv_globals) feed_no_data ''no_data''"
    by (simp add: reports_def example_defs)
  have h2: "reports example_lib (region kyiv_globals) feed_full ''full''"
    by (simp add: reports_def example_defs)
  have h4: "reports example_lib (region kyiv_globals) feed_null ''null''"
    by (simp add: reports_def example_defs)
  have r: "region kyiv_globals = ''kyiv''"
    by (simp add: kyiv_globals_def)
  from end_to_end_scenario [OF h0 h1 h2 h2 h4, of "''on.mp3''" "''off.mp3''" "''http://feed''" 30]
    h0 h1 h2 h4 r
  show ?thesis by simp
qed

text \<open>
  Claim C6, evaluated on the code. A pass of the loop body on an empty buffer (a failed
  fetch) writes the failure line twice and ends at \<^verbatim>\<open>continue\<close>: it does not call
  \<^verbatim>\<open>sleep_for\<close>, so two failed fetches in a row have no sleep between them, where a
  pass on a document of the feed ends with the sleep of the configured interval.
\<close>

theorem failed_fetch_cycle_does_not_sleep:
  "iteration lib on off url n g [] =
     (g, [Cerr (''Failed to fetch data from '' @ url @ [CHR 0x0A]),
          Cerr (''Failed to fetch data from '' @ url @ [CHR 0x0A])], None) \<and>
   filter is_SleepFor (concat (cycles (check_alerts lib on off url n g [[], []]))) = [] \<and>
   iteration example_lib ''on.mp3'' ''off.mp3'' ''http://feed'' 30 kyiv_globals feed_no_data =
     (kyiv_globals, [SleepFor 30], None)"
  by (simp add: iteration_def fetch_data_def subscript_asString_def decide_def example_defs)

text \<open>
  Claim C9. When the transfer gives a non-empty object without the configured region,
  the status read is the empty string, the decision step keeps the alert state whatever
  it is and starts no thread, and the pass ends with the sleep of a successful cycle:
  no global changes and no failure line is written.
\<close>

theorem missing_region_is_no_op:
  assumes "readBuffer \<noteq> []"
    and "parse lib readBuffer = Some (objectValue kvs)"
    and "kvs \<noteq> []"
    and "map_of kvs (region g) = None"
  shows "subscript_asString lib (objectValue kvs) (region g) = Inr [] \<and>
         decide on off (region g) (alert_active g) [] = (alert_active g, []) \<and>
         iteration lib on off url n g readBuffer = (g, [SleepFor n], None)"
  using assms
  by (simp add: iteration_def fetch_data_def subscript_asString_def decide_def)

theorem missing_region_is_no_op_witness:
  "feed_other_region \<noteq> [] \<and>
   parse example_lib feed_other_region = Some (objectValue [(''lviv'', stringValue ''full'')]) \<and>
   map_of [(''lviv'', stringValue ''full'' :: int Value)] (region kyiv_globals) = None \<and>
   iteration example_lib ''on.mp3'' ''off.mp3'' ''http://feed'' 30 kyiv_globals
     feed_other_region = (kyiv_globals, [SleepFor 30], None) \<and>
   iteration example_lib ''on.mp3'' ''off.mp3'' ''http://feed'' 30
     (kyiv_globals\<lparr>alert_active := True\<rparr>) feed_other_region =
     (kyiv_globals\<lparr>alert_active := True\<rparr>, [SleepFor 30], None)"
proof -
  have h1: "feed_other_region \<noteq> []"
    by (simp add: feed_other_region_def)
  have h2: "parse example_lib feed_other_region =
      Some (objectValue [(''lviv'', stringValue ''full'')])"
    by (simp add: example_defs)
  have h3: "[(''lviv'', stringValue ''full'' :: int Value)] \<noteq> []"
    by simp
  have h4: "map_of [(''lviv'', stringValue ''full'' :: int Value)] (region kyiv_globals) = None"
    by (simp add: kyiv_globals_def)
  have h5: "map_of [(''lviv'', stringValue ''full'' :: int Value)]
      (region (kyiv_globals\<lparr>alert_active := True\<rparr>)) = None"
    by (simp add: kyiv_globals_def)
  from missing_region_is_no_op [OF h1 h2 h3 h4, of "''on.mp3''" "''off.mp3''" "''http://feed''" 30]
    missing_region_is_no_op [OF h1 h2 h3 h5, of "''on.mp3''" "''off.mp3''" "''http://feed''" 30]
    h1 h2 h4
  show ?thesis by simp
qed

section \<open>What fetch_data returns\<close>




section \<open>Startup\<close>

lemma read_config_ok:
  assumes "subscript_asString lib config ''region'' = Inr r"
    and "subscript_asString lib config ''alert_on'' = Inr a"
    and "subscript_asString lib config ''alert_off'' = Inr b"
    and "subscript_asString lib config ''data_url'' = Inr u"
    and "subscript config ''update_interval'' = Inr m"
    and "asInt lib m = Inr i"
  shows "read_config lib config g =
           (g\<lparr>region := r, alert_on := a, alert_off := b, data_url := u, update_interval := i\<rparr>,
            None)"
  using assms by (simp add: read_config_def)

text \<open>
  Claim C7 says that a configuration with a non-positive interval, an empty region or an
  empty URL stops the program at startup with an error. Three runs of \<open>main\<close>, on a
  file with the interval 0, on one with an empty region and on one with an empty URL:
  each enters the loop and makes its cycle, nothing is written at startup.
\<close>

theorem startup_validation_counterexample:
  "main example_lib example_files [''alert_system'', ''zero_interval.json''] initial_globals
     [feed_full] =
     \<lparr>final = kyiv_globals\<lparr>update_interval := 0, alert_active := True\<rparr>, startup = [],
      cycles = [raise_threads ''on.mp3'' ''kyiv'' @ [SleepFor 0]], ending = Polling\<rparr> \<and>
   main example_lib example_files [''alert_system'', ''empty_region.json''] initial_globals
     [feed_full] =
     \<lparr>final = kyiv_globals\<lparr>region := []\<rparr>, startup = [],
      cycles = [[SleepFor 30]], ending = Polling\<rparr> \<and>
   main example_lib example_files [''alert_system'', ''empty_url.json''] initial_globals
     [[]] =
     \<lparr>final = kyiv_globals\<lparr>data_url := []\<rparr>, startup = [],
      cycles = [[Cerr (''Failed to fetch data from '' @ [CHR 0x0A]),
                 Cerr (''Failed to fetch data from '' @ [CHR 0x0A])]],
      ending = Polling\<rparr>"
  by (simp add: main_def read_config_def subscript_asString_def iteration_def fetch_data_def
      decide_def initial_globals_def example_defs)

text \<open>
  Claim C7, as the code has it. \<open>main\<close> checks nothing about the values it reads:
  when the configuration file opens, is read as JSON and its five members convert,
  \<open>main\<close> stores the values as they are, writes nothing, and enters the polling loop
  with them, whatever the interval, the region and the URL are; it does not exit, and
  with a transfer to observe the loop makes a cycle.
\<close>

theorem main_enters_loop_unvalidated:
  assumes "2 \<le> length argv"
    and "files (argv ! 1) = Some text"
    and "parse lib text = Some config"
    and "subscript_asString lib config ''region'' = Inr r"
    and "subscript_asString lib config ''alert_on'' = Inr a"
    and "subscript_asString lib config ''alert_off'' = Inr b"
    and "subscript_asString lib config ''data_url'' = Inr u"
    and "subscript config ''update_interval'' = Inr m"
    and "asInt lib m = Inr i"
  shows "main lib files argv g net =
           check_alerts lib a b u i
             (g\<lparr>region := r, alert_on := a, alert_off := b, data_url := u, update_interval := i\<rparr>)
             net \<and>
         startup (main lib files argv g net) = [] \<and>
         ending (main lib files argv g net) \<noteq> Exit k \<and>
         length (cycles (main lib files argv g net)) \<ge> min 1 (length net)"
proof -
  have m: "main lib files argv g net =
           check_alerts lib a b u i
             (g\<lparr>region := r, alert_on := a, alert_off := b, data_url := u, update_interval := i\<rparr>)
             net"
    using assms(1-3) read_config_ok [OF assms(4-9), of g]
    by (simp add: main_def)
  have c: "length (cycles (check_alerts lib a b u i g' net)) \<ge> min 1 (length net)" for g'
    by (cases net) (auto split: prod.splits option.splits simp: Let_def)
  show ?thesis
    using m check_alerts_startup [of lib a b u i _ net] check_alerts_never_exits [of lib a b u i _ net k] c
    by simp
qed

theorem main_enters_loop_unvalidated_witness:
  "2 \<le> length [''alert_system'', ''empty_url.json''] \<and>
   example_files ([''alert_system'', ''empty_url.json''] ! 1) = Some config_empty_url \<and>
   parse example_lib config_empty_url = Some (config_of ''kyiv'' [] 30) \<and>
   main example_lib example_files [''alert_system'', ''empty_url.json''] initial_globals [[]] =
     check_alerts example_lib ''on.mp3'' ''off.mp3'' [] 30
       (initial_globals\<lparr>region := ''kyiv'', alert_on := ''on.mp3'', alert_off := ''off.mp3'',
          data_url := [], update_interval := 30\<rparr>) [[]] \<and>
   ending (main example_lib example_files [''alert_system'', ''empty_url.json''] initial_globals
     [[]]) \<noteq> Exit 1"
proof -
  let ?config = "config_of ''kyiv'' [] 30"
  have h1: "2 \<le> length [''alert_system'', ''empty_url.json'']" by simp
  have h2: "example_files ([''alert_system'', ''empty_url.json''] ! 1) = Some config_empty_url"
    by (simp add: example_files_def)
  have h3: "parse example_lib config_empty_url = Some ?config"
    by (simp add: example_defs)
  have h4: "subscript_asString example_lib ?config ''region'' = Inr ''kyiv''"
    by (simp add: subscript_asString_def config_of_def)
  have h5: "subscript_asString example_lib ?config ''alert_on'' = Inr ''on.mp3''"
    by (simp add: subscript_asString_def config_of_def)
  have h6: "subscript_asString example_lib ?config ''alert_off'' = Inr ''off.mp3''"
    by (simp add: subscript_asString_def config_of_def)
  have h7: "subscript_asString example_lib ?config ''data_url'' = Inr []"
    by (simp add: subscript_asString_def config_of_def)
  have h8: "subscript ?config ''update_interval'' = Inr (numberValue 30)"
    by (simp add: config_of_def)
  have h9: "asInt example_lib (numberValue 30) = Inr 30"
    by (simp add: example_lib_def)
  from main_enters_loop_unvalidated
      [where argv = "[''alert_system'', ''empty_url.json'']" and files = example_files
         and g = initial_globals and net = "[[]]" and k = 1,
       OF h1 h2 h3 h4 h5 h6 h7 h8 h9]
    h1 h2 h3
  show ?thesis by blast
qed

text \<open>
  Claim C10. With fewer than two arguments, or when the file named by the second
  argument cannot be opened, \<open>main\<close> returns 1, the loop makes no cycle, the globals
  are left as they were, and the run is the same whatever the alert state is: it is
  neither read nor written.
\<close>

theorem main_startup_failure:
  assumes "length argv < 2 \<or> (2 \<le> length argv \<and> files (argv ! 1) = None)"
  shows "ending (main lib files argv g net) = Exit 1 \<and>
         cycles (main lib files argv g net) = [] \<and>
         final (main lib files argv g net) = g \<and>
         main lib files argv (g\<lparr>alert_active := b\<rparr>) net =
           (main lib files argv g net)\<lparr>final := g\<lparr>alert_active := b\<rparr>\<rparr>"
  using assms by (auto simp: main_def)

theorem main_startup_failure_witness:
  "length [''alert_system''] < 2 \<and>
   main example_lib example_files [''alert_system''] initial_globals [feed_full] =
     \<lparr>final = initial_globals,
      startup = [Cerr (''Usage: alert_system <config_file_path>'' @ [CHR 0x0A])],
      cycles = [], ending = Exit 1\<rparr> \<and>
   2 \<le> length [''alert_system'', ''missing.json''] \<and>
   example_files ([''alert_system'', ''missing.json''] ! 1) = None \<and>
   main example_lib example_files [''alert_system'', ''missing.json''] initial_globals
     [feed_full] =
     \<lparr>final = initial_globals,
      startup = [Cerr (''Failed to open config file: missing.json'' @ [CHR 0x0A])],
      cycles = [], ending = Exit 1\<rparr>"
proof -
  have h1: "length [''alert_system''] < 2 \<or>
      (2 \<le> length [''alert_system''] \<and> example_files ([''alert_system''] ! 1) = None)"
    by simp
  have h2: "length [''alert_system'', ''missing.json''] < 2 \<or>
      (2 \<le> length [''alert_system'', ''missing.json''] \<and>
       example_files ([''alert_system'', ''missing.json''] ! 1) = None)"
    by (simp add: example_files_def)
  have s1: "startup (main example_lib example_files [''alert_system''] initial_globals
      [feed_full]) = [Cerr (''Usage: alert_system <config_file_path>'' @ [CHR 0x0A])]"
    by (simp add: main_def)
  have s2: "startup (main example_lib example_files [''alert_system'', ''missing.json'']
      initial_globals [feed_full]) =
      [Cerr (''Failed to open config file: missing.json'' @ [CHR 0x0A])]"
    by (simp add: main_def example_files_def)
  from main_startup_failure
      [where argv = "[''alert_system'']" and files = example_files and lib = example_lib
         and g = initial_globals and net = "[feed_full]", OF h1]
    main_startup_failure
      [where argv = "[''alert_system'', ''missing.json'']" and files = example_files
         and lib = example_lib and g = initial_globals and net = "[feed_full]", OF h2]
    s1 s2
  show ?thesis by (simp add: main_def example_files_def)
qed

end
